theory Spec2Isabelle
  imports Main
begin

section \<open>The values of the language\<close>

text \<open>
  \<^verbatim>\<open>escapeSearchQuery(value)\<close> of \<^verbatim>\<open>app/utils/escapeSearchQuery.jsx\<close> takes a value of any
  type. The values are the data values of ECMAScript: the primitives, and ordinary objects
  and arrays that hold data (own data properties with string keys, no function values).
  A string is the list of its characters.
  The Number type is the parameter \<open>'n\<close>: the function never computes with a number, it
  only hands it to the conversion of the template literal. Floating point is not modelled;
  where a concrete Number type is needed, it is the type of the safe integers below.
\<close>

datatype 'n jsvalue =
    JUndefined
  | JNull
  | JBoolean bool
  | JNumber 'n
  | JBigInt int
  | JString string
  | JSymbol string
  | JObject "(string \<times> 'n jsvalue) list"
  | JArray "'n jsvalue list"

text \<open>The only error the operations used here can throw.\<close>

datatype error = TypeError

text \<open>The \<^verbatim>\<open>typeof\<close> operator; \<^verbatim>\<open>typeof null\<close> is \<^verbatim>\<open>'object'\<close>.\<close>

fun typeof :: "'n jsvalue \<Rightarrow> string" where
  "typeof JUndefined = ''undefined''"
| "typeof JNull = ''object''"
| "typeof (JBoolean b) = ''boolean''"
| "typeof (JNumber n) = ''number''"
| "typeof (JBigInt i) = ''bigint''"
| "typeof (JString s) = ''string''"
| "typeof (JSymbol d) = ''symbol''"
| "typeof (JObject ps) = ''object''"
| "typeof (JArray xs) = ''object''"

text \<open>The double quote (U+0022) and the backslash (U+005C).\<close>

definition dquote :: char where
  "dquote = CHR 0x22"

definition backslash :: char where
  "backslash = CHR 0x5C"

section \<open>Conversion to a string\<close>

text \<open>
  The decimal digits of a natural number, most significant first, and the decimal numeral of
  an integer. This is how the language prints a BigInt, whatever its size. A Number is
  printed so only when it is a safe integer, one of magnitude at most \<open>2\<^sup>5\<^sup>3 - 1\<close>: beyond
  that a Number prints the shortest digits that read back as it, filled with zeros, and
  from \<open>10\<^sup>2\<^sup>1\<close> on in exponent notation.
\<close>

fun digits :: "nat \<Rightarrow> string" where
  "digits n =
     (if n < 10 then [''0123456789'' ! n]
      else digits (n div 10) @ [''0123456789'' ! (n mod 10)])"

declare digits.simps [simp del]

definition integerToString :: "int \<Rightarrow> string" where
  "integerToString i = (if i < 0 then CHR ''-'' # digits (nat (- i)) else digits (nat i))"

text \<open>The number a string of decimal digits stands for.\<close>

definition decimal_value :: "string \<Rightarrow> nat" where
  "decimal_value s = foldl (\<lambda>a c. 10 * a + (of_char c - 48)) 0 s"

text \<open>
  The Numbers that are safe integers (\<^verbatim>\<open>Number.isSafeInteger\<close>), and their conversion to a
  string: the decimal numeral.
\<close>

typedef safe_integer = "{i :: int. - (2 ^ 53 - 1) \<le> i \<and> i \<le> 2 ^ 53 - 1}"
  by (rule exI [of _ 0]) simp

definition safeIntegerToString :: "safe_integer \<Rightarrow> string" where
  "safeIntegerToString n = integerToString (Rep_safe_integer n)"

text \<open>
  The abstract operation ToString, which a template literal applies to the value of each
  substitution. \<open>numberToString\<close> is the conversion of the Number type, which never throws;
  a BigInt prints as its decimal numeral.
  A Symbol throws a TypeError. An array is joined with commas, \<^verbatim>\<open>undefined\<close> and
  \<^verbatim>\<open>null\<close> elements giving the empty string. An ordinary object prints through
  \<^verbatim>\<open>Object.prototype.toString\<close>, unless an own property \<^verbatim>\<open>toString\<close> (not callable, as
  the values hold data only) hides it: then no method gives a primitive, and the conversion
  throws.
\<close>

fun ToString :: "('n \<Rightarrow> string) \<Rightarrow> 'n jsvalue \<Rightarrow> error + string"
  and join :: "('n \<Rightarrow> string) \<Rightarrow> 'n jsvalue list \<Rightarrow> error + string" where
  "ToString numberToString JUndefined = Inr ''undefined''"
| "ToString numberToString JNull = Inr ''null''"
| "ToString numberToString (JBoolean b) = Inr (if b then ''true'' else ''false'')"
| "ToString numberToString (JNumber n) = Inr (numberToString n)"
| "ToString numberToString (JBigInt i) = Inr (integerToString i)"
| "ToString numberToString (JString s) = Inr s"
| "ToString numberToString (JSymbol d) = Inl TypeError"
| "ToString numberToString (JObject ps) =
     (if ''toString'' \<in> fst ` set ps then Inl TypeError else Inr ''[object Object]'')"
| "ToString numberToString (JArray xs) = join numberToString xs"
| "join numberToString [] = Inr []"
| "join numberToString (x # xs) =
     (case (case x of JUndefined \<Rightarrow> Inr [] | JNull \<Rightarrow> Inr [] | _ \<Rightarrow> ToString numberToString x) of
        Inl e \<Rightarrow> Inl e
      | Inr s \<Rightarrow>
          if xs = [] then Inr s
          else (case join numberToString xs of
                  Inl e \<Rightarrow> Inl e
                | Inr r \<Rightarrow> Inr (s @ '','' @ r)))"

text \<open>The template literal \<^verbatim>\<open>`${value}`\<close>: the string ToString gives, or its error.\<close>

definition template_literal :: "('n \<Rightarrow> string) \<Rightarrow> 'n jsvalue \<Rightarrow> error + 'n jsvalue" where
  "template_literal numberToString v =
     (case ToString numberToString v of Inl e \<Rightarrow> Inl e | Inr s \<Rightarrow> Inr (JString s))"

section \<open>Replacement\<close>

text \<open>
  \<^verbatim>\<open>s.replace(/c/g, r)\<close> for a pattern that is the one literal character \<open>c\<close> and a
  replacement \<open>r\<close> without \<^verbatim>\<open>$\<close>: the string is scanned from the left, every \<open>c\<close> gives
  \<open>r\<close>, every other character gives itself.
\<close>

primrec replace_global :: "char \<Rightarrow> string \<Rightarrow> string \<Rightarrow> string" where
  "replace_global c r [] = []"
| "replace_global c r (x # xs) =
     (if x = c then r @ replace_global c r xs else x # replace_global c r xs)"

text \<open>
  The method call \<^verbatim>\<open>value.replace(/c/g, r)\<close>. Reading a property of \<^verbatim>\<open>undefined\<close> or
  \<^verbatim>\<open>null\<close> throws a TypeError; on every other value that is not a string the property
  \<^verbatim>\<open>replace\<close> is not a function, and calling it throws a TypeError as well.
\<close>

fun replace_method :: "'n jsvalue \<Rightarrow> char \<Rightarrow> string \<Rightarrow> error + 'n jsvalue" where
  "replace_method (JString s) c r = Inr (JString (replace_global c r s))"
| "replace_method v c r = Inl TypeError"

section \<open>escapeSearchQuery\<close>

text \<open>
  \<^verbatim>\<open>
  export function escapeSearchQuery(value) {
    // Cast numbers to string
    if (typeof value === 'number') {
      return `${value}`;
    }
    return typeof value === 'string' ? value.replace(/"/g, '"') : '';
  }
  \<close>
  The pattern is the double quote, and the replacement string of the source is the double
  quote as well. The parameter \<^verbatim>\<open>value\<close> of the source is \<open>val\<close> here.
\<close>

definition escapeSearchQuery :: "('n \<Rightarrow> string) \<Rightarrow> 'n jsvalue \<Rightarrow> error + 'n jsvalue" where
  "escapeSearchQuery numberToString val =
     (if typeof val = ''number'' then template_literal numberToString val
      else if typeof val = ''string'' then replace_method val dquote [dquote]
      else Inr (JString []))"

text \<open>
  The escaping the specification describes, for comparison with the code: every double
  quote becomes a backslash followed by a double quote.
\<close>

definition escape_quotes_spec :: "string \<Rightarrow> string" where
  "escape_quotes_spec s = replace_global dquote [backslash, dquote] s"

section \<open>The function in a world of objects\<close>

text \<open>
  What a call can change. A regular expression literal makes a RegExp object each time it
  is evaluated, and a replacement with a global RegExp writes the \<^verbatim>\<open>lastIndex\<close> of that
  object. The world is the store of the RegExp objects made so far, an object's address
  being its position in the store. ECMAScript gives a match no other effect.
\<close>

record regexp =
  pattern :: char
  global :: bool
  lastIndex :: nat

record world =
  heap :: "regexp list"

text \<open>
  The literal \<^verbatim>\<open>/c/\<close> or \<^verbatim>\<open>/c/g\<close>: a new object at the next address, with
  \<^verbatim>\<open>lastIndex\<close> 0.
\<close>

definition RegExp_literal :: "char \<Rightarrow> bool \<Rightarrow> world \<Rightarrow> nat \<times> world" where
  "RegExp_literal c g w =
     (length (heap w), w\<lparr>heap := heap w @ [\<lparr>pattern = c, global = g, lastIndex = 0\<rparr>]\<rparr>)"

text \<open>Without the flag \<^verbatim>\<open>g\<close> only the first match is replaced.\<close>

primrec replace_first :: "char \<Rightarrow> string \<Rightarrow> string \<Rightarrow> string" where
  "replace_first c r [] = []"
| "replace_first c r (x # xs) = (if x = c then r @ xs else x # replace_first c r xs)"

text \<open>
  The replacement of a string by the RegExp object at address \<open>a\<close>. The pattern and the
  flag are read from the object. A global RegExp starts at \<^verbatim>\<open>lastIndex\<close> 0, replaces every
  match, and the search that finds no further match leaves \<^verbatim>\<open>lastIndex\<close> at 0; a RegExp
  that is not global replaces the first match and writes nothing. An address that holds no
  object does not arise in the language; the model answers it with an error.
\<close>

definition RegExp_replace ::
  "nat \<Rightarrow> string \<Rightarrow> string \<Rightarrow> world \<Rightarrow> (error + 'n jsvalue) \<times> world" where
  "RegExp_replace a s r w =
     (if a < length (heap w) then
        (let rx = heap w ! a in
         if global rx
         then (Inr (JString (replace_global (pattern rx) r s)),
               w\<lparr>heap := (heap w)[a := rx\<lparr>lastIndex := 0\<rparr>]\<rparr>)
         else (Inr (JString (replace_first (pattern rx) r s)), w))
      else (Inl TypeError, w))"

text \<open>
  The method call \<^verbatim>\<open>value.replace(/c/g, r)\<close> in a world, in the order of evaluation of
  the language: reading the property throws on \<^verbatim>\<open>undefined\<close> and \<^verbatim>\<open>null\<close>; then the
  argument is evaluated, which makes the RegExp object; then the call is made, which
  throws unless the value is a string.
\<close>

definition replace_method_in ::
  "'n jsvalue \<Rightarrow> char \<Rightarrow> bool \<Rightarrow> string \<Rightarrow> world \<Rightarrow> (error + 'n jsvalue) \<times> world" where
  "replace_method_in v c g r w =
     (case v of
        JUndefined \<Rightarrow> (Inl TypeError, w)
      | JNull \<Rightarrow> (Inl TypeError, w)
      | _ \<Rightarrow>
          (case RegExp_literal c g w of
             (a, w') \<Rightarrow>
               (case v of
                  JString s \<Rightarrow> RegExp_replace a s r w'
                | _ \<Rightarrow> (Inl TypeError, w'))))"

text \<open>
  The body of \<^verbatim>\<open>escapeSearchQuery\<close> in a world. The type tests and the template literal
  read the argument only.
\<close>

definition escapeSearchQuery_in ::
  "('n \<Rightarrow> string) \<Rightarrow> 'n jsvalue \<Rightarrow> world \<Rightarrow> (error + 'n jsvalue) \<times> world" where
  "escapeSearchQuery_in numberToString val w =
     (if typeof val = ''number'' then (template_literal numberToString val, w)
      else if typeof val = ''string'' then replace_method_in val dquote True [dquote] w
      else (Inr (JString []), w))"

text \<open>
  The input of the test \<^verbatim>\<open>escapes strings with quotes\<close>: the word \<^verbatim>\<open>test\<close> between two
  double quotes.
\<close>

definition quoted_test :: string where
  "quoted_test = dquote # ''test'' @ [dquote]"

section \<open>Replacement: general facts\<close>

lemma replace_global_self: "replace_global c [c] s = s"
  by (induction s) simp_all

lemma replace_global_absent: "c \<notin> set s \<Longrightarrow> replace_global c r s = s"
  by (induction s) auto

lemma length_replace_global:
  "length (replace_global c r s) + count_list s c = length s + count_list s c * length r"
  by (induction s) simp_all

text \<open>The escaping of the specification does add one character for each double quote.\<close>

lemma length_escape_quotes_spec:
  "length (escape_quotes_spec s) = length s + count_list s dquote"
  using length_replace_global [of dquote "[backslash, dquote]" s]
  by (simp add: escape_quotes_spec_def)

section \<open>What the type tests select\<close>

lemma typeof_number: "typeof v = ''number'' \<Longrightarrow> \<exists>n. v = JNumber n"
  by (cases v) simp_all

lemma typeof_string: "typeof v = ''string'' \<Longrightarrow> \<exists>s. v = JString s"
  by (cases v) simp_all

section \<open>Decimal numerals\<close>

lemma digit_value: "d < 10 \<Longrightarrow> of_char (''0123456789'' ! d) - 48 = (d :: nat)"
  by (auto simp: numeral_eq_Suc less_Suc_eq)

lemma decimal_value_snoc:
  "decimal_value (s @ [c]) = 10 * decimal_value s + (of_char c - 48)"
  by (simp add: decimal_value_def)

text \<open>The digits of a number read back as the number.\<close>

lemma decimal_value_digits: "decimal_value (digits n) = n"
proof (induction n rule: digits.induct)
  case (1 n)
  show ?case
  proof (cases "n < 10")
    case True
    then show ?thesis
      by (subst digits.simps) (simp add: decimal_value_def digit_value)
  next
    case False
    with 1 have "decimal_value (digits (n div 10)) = n div 10"
      by simp
    with False show ?thesis
      by (subst digits.simps) (simp add: decimal_value_snoc digit_value)
  qed
qed

lemma integerToString_nonnegative:
  "0 \<le> i \<Longrightarrow> int (decimal_value (integerToString i)) = i"
  by (simp add: integerToString_def decimal_value_digits)

lemma integerToString_negative:
  "i < 0 \<Longrightarrow> integerToString i = CHR ''-'' # integerToString (- i)"
  by (simp add: integerToString_def)

section \<open>The function in a world: what it returns\<close>

text \<open>
  On a string the method call makes the RegExp object, reads the pattern and the flag back
  from it, and leaves it in the world with \<^verbatim>\<open>lastIndex\<close> 0.
\<close>

lemma replace_method_in_string:
  "replace_method_in (JString s) c True r w =
     (Inr (JString (replace_global c r s)),
      w\<lparr>heap := heap w @ [\<lparr>pattern = c, global = True, lastIndex = 0\<rparr>]\<rparr>)"
  by (simp add: replace_method_in_def RegExp_literal_def RegExp_replace_def)

text \<open>
  The replacement does write: on a RegExp object that is already in the world, with a
  \<^verbatim>\<open>lastIndex\<close> left by an earlier search, it changes that object. The call of the function
  never meets such an object, the literal giving it a new one each time.
\<close>

lemma RegExp_replace_writes:
  "snd (RegExp_replace 0 ''a'' ''b''
          \<lparr>heap = [\<lparr>pattern = dquote, global = True, lastIndex = 1\<rparr>]\<rparr>
        :: (error + safe_integer jsvalue) \<times> world)
     = \<lparr>heap = [\<lparr>pattern = dquote, global = True, lastIndex = 0\<rparr>]\<rparr>"
  by (simp add: RegExp_replace_def)

text \<open>In every world the call returns what the function without a world returns.\<close>

lemma escapeSearchQuery_in_result:
  "fst (escapeSearchQuery_in numberToString val w) = escapeSearchQuery numberToString val"
proof (cases "typeof val = ''string''")
  case True
  then obtain s where "val = JString s"
    using typeof_string by blast
  then show ?thesis
    by (simp add: escapeSearchQuery_in_def escapeSearchQuery_def replace_method_in_string)
next
  case False
  then show ?thesis
    by (simp add: escapeSearchQuery_in_def escapeSearchQuery_def)
qed

section \<open>The tests of the repository\<close>

text \<open>
  The four tests of \<^verbatim>\<open>utils.escapeSearchQuery\<close>, with the safe integers as the Number
  type. The third expects the quoted word back as it went in.
\<close>

lemma test_handles_non_string_values:
  "escapeSearchQuery safeIntegerToString JNull = Inr (JString [])"
  by (simp add: escapeSearchQuery_def)

lemma test_escapes_strings_without_quotes:
  "escapeSearchQuery safeIntegerToString (JString ''test'') = Inr (JString ''test'')"
  by (simp add: escapeSearchQuery_def dquote_def)

lemma test_escapes_strings_with_quotes:
  "escapeSearchQuery safeIntegerToString (JString quoted_test) = Inr (JString quoted_test)"
  by (simp add: escapeSearchQuery_def replace_global_self)

lemma safeIntegerToString_1000: "safeIntegerToString (Abs_safe_integer 1000) = ''1000''"
proof -
  have "Rep_safe_integer (Abs_safe_integer 1000) = 1000"
    by (simp add: Abs_safe_integer_inverse)
  moreover have "integerToString 1000 = ''1000''"
    by code_simp
  ultimately show ?thesis
    by (simp add: safeIntegerToString_def)
qed

lemma test_casts_numbers_to_a_string:
  "escapeSearchQuery safeIntegerToString (JNumber (Abs_safe_integer 1000)) = Inr (JString ''1000'')"
  by (simp add: escapeSearchQuery_def template_literal_def safeIntegerToString_1000)

section \<open>Strings\<close>

text \<open>
  C1. The specification: in a string with a double quote, every double quote is replaced by a
  backslash and a double quote, the other characters staying as they are. The code does
  not do this: on the quoted word of the test it returns the quoted word, which is not what
  the escaping of the specification gives (a backslash before each of the two quotes).
\<close>

theorem escapeSearchQuery_quotes_not_escaped:
  "escapeSearchQuery safeIntegerToString (JString quoted_test) = Inr (JString quoted_test)
   \<and> escape_quotes_spec quoted_test = [backslash, dquote] @ ''test'' @ [backslash, dquote]
   \<and> escapeSearchQuery safeIntegerToString (JString quoted_test)
       \<noteq> Inr (JString (escape_quotes_spec quoted_test))"
  by (simp add: escapeSearchQuery_def replace_global_self escape_quotes_spec_def
      quoted_test_def dquote_def backslash_def)

text \<open>
  C2. The specification: the result is longer than the input by the number of double quotes
  in it. The code does not do this: the quoted word of the test has six characters, two of
  them double quotes, and the result has six characters, not eight.
\<close>

theorem escapeSearchQuery_quote_length:
  "\<exists>r. escapeSearchQuery safeIntegerToString (JString quoted_test) = Inr (JString r)
      \<and> length r = 6
      \<and> length quoted_test + count_list quoted_test dquote = 8"
  by (simp add: escapeSearchQuery_def replace_global_self quoted_test_def dquote_def)

text \<open>
  C3. The specification: escaping twice differs from escaping once on some string with a
  double quote. The code does not behave so: on every string, what the first call returns
  is returned again by a second call on it.
\<close>

theorem escapeSearchQuery_twice:
  "\<exists>r. escapeSearchQuery numberToString (JString s) = Inr r
      \<and> escapeSearchQuery numberToString r = Inr r"
  by (simp add: escapeSearchQuery_def replace_global_self)

text \<open>
  C4. On every string, with or without double quotes, the function returns the string
  unchanged: the replacement puts a double quote where it finds one and no backslash.
\<close>

theorem escapeSearchQuery_string_identity:
  "escapeSearchQuery numberToString (JString s) = Inr (JString s)"
  by (simp add: escapeSearchQuery_def replace_global_self)

text \<open>
  C5. A string without a double quote is returned unchanged; \<^verbatim>\<open>test\<close> is one.
\<close>

theorem escapeSearchQuery_no_quotes:
  "dquote \<notin> set s \<Longrightarrow> escapeSearchQuery numberToString (JString s) = Inr (JString s)"
  by (simp add: escapeSearchQuery_def replace_global_absent)

theorem escapeSearchQuery_no_quotes_witness:
  "dquote \<notin> set ''test''
   \<and> escapeSearchQuery safeIntegerToString (JString ''test'') = Inr (JString ''test'')"
  using escapeSearchQuery_no_quotes [where s = "''test''" and numberToString = safeIntegerToString]
  by (simp add: dquote_def)

section \<open>Numbers\<close>

text \<open>
  On a number the function returns what the template literal makes of it: the string of
  the conversion of the Number type, neither escaped nor empty.
\<close>

lemma escapeSearchQuery_number_branch:
  "escapeSearchQuery numberToString (JNumber n) = Inr (JString (numberToString n))"
  by (simp add: escapeSearchQuery_def template_literal_def)

section \<open>Other values\<close>

text \<open>
  C7. A value that is neither a number nor a string gives the empty string, and no error;
  \<^verbatim>\<open>null\<close> is such a value.
\<close>

theorem escapeSearchQuery_other:
  "typeof val \<noteq> ''number'' \<Longrightarrow> typeof val \<noteq> ''string''
   \<Longrightarrow> escapeSearchQuery numberToString val = Inr (JString [])"
  by (simp add: escapeSearchQuery_def)

theorem escapeSearchQuery_other_witness:
  "typeof (JNull :: safe_integer jsvalue) \<noteq> ''number'' \<and> typeof (JNull :: safe_integer jsvalue) \<noteq> ''string''
   \<and> escapeSearchQuery safeIntegerToString JNull = Inr (JString [])"
  using escapeSearchQuery_other [where val = "JNull :: safe_integer jsvalue" and numberToString = safeIntegerToString]
  by simp

section \<open>Every value\<close>

text \<open>
  C8. The function is total: on every value it returns a value and throws no error. The
  conversion of the template literal throws on a Symbol, and the method call throws on
  everything that is not a string; the two \<^verbatim>\<open>typeof\<close> tests keep both away from such
  values.
\<close>

theorem escapeSearchQuery_total:
  "\<exists>r. escapeSearchQuery numberToString val = Inr r"
proof (cases "typeof val = ''number''")
  case True
  then obtain n where "val = JNumber n"
    using typeof_number by blast
  then show ?thesis
    by (simp add: escapeSearchQuery_def template_literal_def)
next
  case no_number: False
  show ?thesis
  proof (cases "typeof val = ''string''")
    case True
    then obtain s where "val = JString s"
      using typeof_string by blast
    then show ?thesis
      by (simp add: escapeSearchQuery_def)
  next
    case False
    with no_number show ?thesis
      by (simp add: escapeSearchQuery_def)
  qed
qed

text \<open>
  C9. On every value the result is a string.
\<close>

theorem escapeSearchQuery_returns_string:
  "\<exists>r. escapeSearchQuery numberToString val = Inr r \<and> typeof r = ''string''"
  by (cases "val") (simp_all add: escapeSearchQuery_def template_literal_def)

text \<open>
  C10. The function is pure and deterministic. The result of a call does not depend on
  the world it is made in, so two calls with the same argument return the same result,
  also when the second is made in the world the first has left. And a call changes nothing
  a caller can observe: the world after it is the world before it, or that world with one
  more RegExp object, the one of the literal, which nothing refers to (the result is a
  string); every object that was there is still there, unchanged.
\<close>

theorem escapeSearchQuery_pure:
  "fst (escapeSearchQuery_in numberToString val w)
     = fst (escapeSearchQuery_in numberToString val w')
   \<and> (snd (escapeSearchQuery_in numberToString val w) = w
        \<or> snd (escapeSearchQuery_in numberToString val w)
            = w\<lparr>heap := heap w @ [\<lparr>pattern = dquote, global = True, lastIndex = 0\<rparr>]\<rparr>)"
proof
  show "fst (escapeSearchQuery_in numberToString val w)
          = fst (escapeSearchQuery_in numberToString val w')"
    by (simp add: escapeSearchQuery_in_result)
next
  show "snd (escapeSearchQuery_in numberToString val w) = w
        \<or> snd (escapeSearchQuery_in numberToString val w)
            = w\<lparr>heap := heap w @ [\<lparr>pattern = dquote, global = True, lastIndex = 0\<rparr>]\<rparr>"
  proof (cases "typeof val = ''string''")
    case True
    then obtain s where "val = JString s"
      using typeof_string by blast
    then show ?thesis
      by (simp add: escapeSearchQuery_in_def replace_method_in_string)
  next
    case False
    then show ?thesis
      by (simp add: escapeSearchQuery_in_def)
  qed
qed

end
